theory Spec2Isabelle
  imports Main
begin

section \<open>Stone Image: the image-edit service and its caller\<close>

text \<open>
  The repository holds three versions of the service function \<open>editImageWithPrompt\<close>
  (file \<open>src/unnamed/part_000\<close>, lines 3-49, 53-98 and 114-164) and the React component
  \<open>App\<close> (file \<open>src/App.tsx\<close>) whose handlers \<open>addPromptToken\<close> and \<open>handleSubmit\<close>
  drive it.

  JavaScript strings are modelled as \<^typ>\<open>string\<close>, a list of 8-bit characters read as
  UTF-16 code units below 256 (so \<open>U+00E9\<close> is \<open>CHR 0xE9\<close>); every literal of the
  source lies in that range. A value that may be \<open>undefined\<close> or \<open>null\<close> is an
  \<^typ>\<open>'a option\<close>. A promise is modelled by its settlement: resolved with a value or
  rejected with the thrown value.
\<close>

subsection \<open>JavaScript values\<close>

text \<open>What a \<open>throw\<close> carries: an \<open>Error\<close> object with its message, or any other value
  (\<open>error instanceof Error\<close> is false for it).\<close>

datatype thrown = ErrorObj string | NonError string

datatype 'a outcome = Resolved 'a | Rejected thrown

text \<open>Truthiness of a \<open>string | undefined\<close>: \<open>undefined\<close> and \<open>""\<close> are falsy.\<close>

fun truthy :: "string option \<Rightarrow> bool" where
  "truthy None = False"
| "truthy (Some s) = (s \<noteq> [])"

text \<open>\<open>a || b\<close> on such values.\<close>

definition js_or :: "string option \<Rightarrow> string option \<Rightarrow> string option" where
  "js_or a b = (if truthy a then a else b)"

subsection \<open>The SDK's request and response shapes\<close>

text \<open>
  The types of \<open>@google/genai\<close> are not part of the repository. The shapes below are
  what the source builds and reads: a part with an optional \<open>inlineData\<close> blob and an
  optional \<open>text\<close>; a response with optional \<open>candidates\<close>, each with an optional
  \<open>content\<close> holding optional \<open>parts\<close> (the source guards each with \<open>?.\<close>). The blob's
  \<open>data\<close> is the base64 text that the declared return type \<open>string | null\<close> expects.
\<close>

record blob =
  data :: string
  mimeType :: string

record part =
  inlineData :: "blob option"
  partText :: "string option"

datatype modality = MODALITY_UNSPECIFIED | TEXT | IMAGE | AUDIO

record generationConfig =
  responseModalities :: "modality list"

record request =
  model :: string
  contents :: "part list"
  config :: "generationConfig option"

record content_t =
  parts :: "part list option"

record candidate =
  content :: "content_t option"

record response =
  candidates :: "candidate list option"

text \<open>
  The SDK as the source uses it: \<open>new GoogleGenAI({apiKey})\<close>, which like any call may
  throw (\<open>construct\<close> gives the thrown value, if any), and
  \<open>ai.models.generateContent(request)\<close>, the one network round trip, which resolves
  with a response or rejects. Both are parameters of the model: nothing is assumed
  about the remote service.
\<close>

record sdk =
  construct :: "string option \<Rightarrow> thrown option"
  generateContent :: "string option \<Rightarrow> request \<Rightarrow> response outcome"

text \<open>The network calls performed so far: the key of the client and the request sent.\<close>

type_synonym net = "(string option \<times> request) list"

subsection \<open>Code shared verbatim by the three versions\<close>

text \<open>\<open>response.candidates?.[0]?.content?.parts || []\<close>\<close>

definition firstCandidateParts :: "response \<Rightarrow> part list" where
  "firstCandidateParts r =
     (case candidates r of
        None \<Rightarrow> []
      | Some [] \<Rightarrow> []
      | Some (c # _) \<Rightarrow>
          (case content c of
             None \<Rightarrow> []
           | Some ct \<Rightarrow> (case parts ct of None \<Rightarrow> [] | Some ps \<Rightarrow> ps)))"

text \<open>
  \<^verbatim>\<open>for (const part of ...) { if (part.inlineData) { return part.inlineData.data; } }
return null;\<close>
  An object is truthy, so the test is whether \<open>inlineData\<close> is present.
\<close>

fun scanParts :: "part list \<Rightarrow> string option" where
  "scanParts [] = None"
| "scanParts (p # ps) =
     (case inlineData p of Some b \<Rightarrow> Some (data b) | None \<Rightarrow> scanParts ps)"

text \<open>
  The \<open>catch\<close> block (the \<open>console.error\<close> trace has no effect on the result):
  \<^verbatim>\<open>if (error instanceof Error) { throw new Error(`API Error: ${error.message}`); }
throw new Error('An unknown error occurred while communicating with the API.');\<close>
\<close>

definition catchBlock :: "thrown \<Rightarrow> thrown" where
  "catchBlock e =
     (case e of
        ErrorObj message \<Rightarrow> ErrorObj (''API Error: '' @ message)
      | NonError _ \<Rightarrow> ErrorObj ''An unknown error occurred while communicating with the API.'')"

definition imagePart :: "string \<Rightarrow> string \<Rightarrow> part" where
  "imagePart base64ImageData mime =
     \<lparr>inlineData = Some \<lparr>data = base64ImageData, mimeType = mime\<rparr>, partText = None\<rparr>"

definition textPart :: "string \<Rightarrow> part" where
  "textPart instruction = \<lparr>inlineData = None, partText = Some instruction\<rparr>"

subsection \<open>Version 1 (lines 3-49): the key is an explicit parameter\<close>

definition missingKey_v1 :: string where
  "missingKey_v1 =
     ''Cl'' @ [CHR 0xE9] @ '' API manquante. Veuillez configurer votre cl'' @ [CHR 0xE9]
       @ '' dans App.tsx ou via l'interface.''"

definition editImageWithPrompt_v1 ::
  "sdk \<Rightarrow> string \<Rightarrow> string \<Rightarrow> string \<Rightarrow> string option \<Rightarrow> net \<Rightarrow> string option outcome \<times> net"
where
  "editImageWithPrompt_v1 api base64ImageData mime instruction apiKey calls =
     (if \<not> truthy apiKey then (Rejected (ErrorObj missingKey_v1), calls)
      else
        (case construct api apiKey of
           Some e \<Rightarrow> (Rejected e, calls)
         | None \<Rightarrow>
             (let req = \<lparr>model = ''gemini-2.5-flash-image'',
                         contents = [imagePart base64ImageData mime, textPart instruction],
                         config = None\<rparr>
              in (case generateContent api apiKey req of
                    Resolved resp \<Rightarrow>
                      (Resolved (scanParts (firstCandidateParts resp)), calls @ [(apiKey, req)])
                  | Rejected e \<Rightarrow> (Rejected (catchBlock e), calls @ [(apiKey, req)])))))"

subsection \<open>Version 2 (lines 53-98): the key is read from the environment, unchecked\<close>

text \<open>\<open>process.env.API_KEY as string\<close>: the cast checks nothing, the value may be
  \<open>undefined\<close>. The request declares \<open>responseModalities: [Modality.IMAGE]\<close>.\<close>

definition editImageWithPrompt_v2 ::
  "sdk \<Rightarrow> string option \<Rightarrow> string \<Rightarrow> string \<Rightarrow> string \<Rightarrow> net \<Rightarrow> string option outcome \<times> net"
where
  "editImageWithPrompt_v2 api env_API_KEY base64ImageData mime instruction calls =
     (case construct api env_API_KEY of
        Some e \<Rightarrow> (Rejected e, calls)
      | None \<Rightarrow>
          (let req = \<lparr>model = ''gemini-2.5-flash-image'',
                      contents = [imagePart base64ImageData mime, textPart instruction],
                      config = Some \<lparr>responseModalities = [IMAGE]\<rparr>\<rparr>
           in (case generateContent api env_API_KEY req of
                 Resolved resp \<Rightarrow>
                   (Resolved (scanParts (firstCandidateParts resp)),
                    calls @ [(env_API_KEY, req)])
               | Rejected e \<Rightarrow> (Rejected (catchBlock e), calls @ [(env_API_KEY, req)]))))"

subsection \<open>Version 3 (lines 114-164): a file-local constant, then the environment\<close>

text \<open>
  Line 110 of the source, the declaration of \<open>LOCAL_API_KEY\<close>, is not well-formed
  TypeScript (a string literal followed by a bare token), so the constant's value is a
  parameter here. \<open>const apiKey = LOCAL_API_KEY || process.env.API_KEY\<close>.
\<close>

definition missingKey_v3 :: string where
  "missingKey_v3 =
     ''Cl'' @ [CHR 0xE9] @ '' API manquante. Veuillez ouvrir 'services/geminiService.ts' et ''
       @ ''coller votre cl'' @ [CHR 0xE9]
       @ '' dans la variable LOCAL_API_KEY tout en haut du fichier.''"

definition editImageWithPrompt_v3 ::
  "sdk \<Rightarrow> string \<Rightarrow> string option \<Rightarrow> string \<Rightarrow> string \<Rightarrow> string \<Rightarrow> net
     \<Rightarrow> string option outcome \<times> net"
where
  "editImageWithPrompt_v3 api LOCAL_API_KEY env_API_KEY base64ImageData mime instruction calls =
     (let apiKey = js_or (Some LOCAL_API_KEY) env_API_KEY in
      if \<not> truthy apiKey then (Rejected (ErrorObj missingKey_v3), calls)
      else
        (case construct api apiKey of
           Some e \<Rightarrow> (Rejected e, calls)
         | None \<Rightarrow>
             (let req = \<lparr>model = ''gemini-2.5-flash-image'',
                         contents = [imagePart base64ImageData mime, textPart instruction],
                         config = None\<rparr>
              in (case generateContent api apiKey req of
                    Resolved resp \<Rightarrow>
                      (Resolved (scanParts (firstCandidateParts resp)), calls @ [(apiKey, req)])
                  | Rejected e \<Rightarrow> (Rejected (catchBlock e), calls @ [(apiKey, req)])))))"

subsection \<open>The caller: component state of \<open>App\<close> (src/App.tsx)\<close>

record ImageFile =
  img_base64 :: string
  img_mimeType :: string
  img_name :: string

record app_state =
  originalImage :: "ImageFile option"
  editedImage :: "string option"
  prompt :: string
  isLoading :: bool
  error :: "string option"
  isDragging :: bool
  showOriginal :: bool

definition STYLE_PRESETS :: "string list" where
  "STYLE_PRESETS =
     [''Cyberpunk'', ''Aquarelle'', ''Pixel Art'', ''Dessin au crayon'',
      ''Photo r'' @ [CHR 0xE9] @ ''aliste'', ''Cartoon 3D'', ''Origami'', ''Vapeurwave'',
      ''Noir et blanc'', ''Studio Ghibli'']"

definition ENHANCEMENTS :: "string list" where
  "ENHANCEMENTS =
     [[CHR 0xC9] @ ''clairage cin'' @ [CHR 0xE9] @ ''matique'',
      ''Haute r'' @ [CHR 0xE9] @ ''solution 4k'', ''Couleurs vives'',
      ''Arri'' @ [CHR 0xE8] @ ''re-plan flou'', ''HDR'', ''Minimaliste'']"

subsubsection \<open>String built-ins used by \<open>addPromptToken\<close>\<close>

text \<open>
  \<open>String.prototype.trim\<close> strips white space and line terminators from both ends;
  below code unit 256 these are TAB, LF, VT, FF, CR, SPACE and NO-BREAK SPACE.
\<close>

definition isWhiteSpace :: "char \<Rightarrow> bool" where
  "isWhiteSpace c = (of_char c \<in> {9, 10, 11, 12, 13, 32, 160 :: nat})"

definition trim :: "string \<Rightarrow> string" where
  "trim s = rev (dropWhile isWhiteSpace (rev (dropWhile isWhiteSpace s)))"

text \<open>
  \<open>String.prototype.toLowerCase\<close>: below code unit 256 it maps \<open>A-Z\<close> and
  \<open>U+00C0-U+00DE\<close> (but for the multiplication sign \<open>U+00D7\<close>) up by 32, and nothing else.
\<close>

definition lowerChar :: "char \<Rightarrow> char" where
  "lowerChar c =
     (let n = (of_char c :: nat)
      in if (65 \<le> n \<and> n \<le> 90) \<or> (192 \<le> n \<and> n \<le> 222 \<and> n \<noteq> 215)
         then char_of (n + 32) else c)"

definition toLowerCase :: "string \<Rightarrow> string" where
  "toLowerCase s = map lowerChar s"

text \<open>\<open>s.includes(t)\<close>: \<open>t\<close> occurs in \<open>s\<close> as a contiguous run.\<close>

fun includesStr :: "string \<Rightarrow> string \<Rightarrow> bool" where
  "includesStr [] t = (t = [])"
| "includesStr (c # s) t = (take (length t) (c # s) = t \<or> includesStr s t)"

subsubsection \<open>\<open>addPromptToken\<close> (src/App.tsx, lines 74-81)\<close>

text \<open>
  \<^verbatim>\<open>setPrompt(prev => {
    const trimmed = prev.trim();
    if (trimmed.length === 0) return token;
    if (trimmed.toLowerCase().includes(token.toLowerCase())) return prev;
    return `${trimmed}, ${token}`;
});\<close>
\<close>

definition addPromptToken :: "string \<Rightarrow> app_state \<Rightarrow> app_state" where
  "addPromptToken token st =
     st\<lparr>prompt :=
          (let prev = prompt st; trimmed = trim prev
           in if length trimmed = 0 then token
              else if includesStr (toLowerCase trimmed) (toLowerCase token) then prev
              else trimmed @ '', '' @ token)\<rparr>"

subsubsection \<open>The handlers of \<open>App\<close> as steps of the component\<close>













subsection \<open>The requests the three versions send, and concrete inputs\<close>

text \<open>The object literal passed to \<open>generateContent\<close> by versions 1 and 3, and by version 2
  (with the response-modality declaration), written out.\<close>

abbreviation plainRequest :: "string \<Rightarrow> string \<Rightarrow> string \<Rightarrow> request" where
  "plainRequest b m p \<equiv>
     \<lparr>model = ''gemini-2.5-flash-image'',
      contents = [\<lparr>inlineData = Some \<lparr>data = b, mimeType = m\<rparr>, partText = None\<rparr>,
                  \<lparr>inlineData = None, partText = Some p\<rparr>],
      config = None\<rparr>"

abbreviation imageModalityRequest :: "string \<Rightarrow> string \<Rightarrow> string \<Rightarrow> request" where
  "imageModalityRequest b m p \<equiv>
     \<lparr>model = ''gemini-2.5-flash-image'',
      contents = [\<lparr>inlineData = Some \<lparr>data = b, mimeType = m\<rparr>, partText = None\<rparr>,
                  \<lparr>inlineData = None, partText = Some p\<rparr>],
      config = Some \<lparr>responseModalities = [IMAGE]\<rparr>\<rparr>"

text \<open>Two responses and two SDK behaviours on which the model is run below: a first
  candidate with a text part followed by two inline images (and a second candidate with
  another image), and a text-only reply.\<close>

definition respWithImage :: response where
  "respWithImage =
     \<lparr>candidates = Some
        [\<lparr>content = Some \<lparr>parts = Some
            [\<lparr>inlineData = None, partText = Some ''Here is your image''\<rparr>,
             \<lparr>inlineData = Some \<lparr>data = ''QUJD'', mimeType = ''image/png''\<rparr>, partText = None\<rparr>,
             \<lparr>inlineData = Some \<lparr>data = ''WFla'', mimeType = ''image/png''\<rparr>, partText = None\<rparr>]\<rparr>\<rparr>,
         \<lparr>content = Some \<lparr>parts = Some
            [\<lparr>inlineData = Some \<lparr>data = ''UVJT'', mimeType = ''image/png''\<rparr>, partText = None\<rparr>]\<rparr>\<rparr>]\<rparr>"

definition respTextOnly :: response where
  "respTextOnly =
     \<lparr>candidates = Some
        [\<lparr>content = Some \<lparr>parts = Some
            [\<lparr>inlineData = None, partText = Some ''I cannot edit this image''\<rparr>]\<rparr>\<rparr>]\<rparr>"

definition sdkResolving :: "response \<Rightarrow> sdk" where
  "sdkResolving r = \<lparr>construct = (\<lambda>_. None), generateContent = (\<lambda>_ _. Resolved r)\<rparr>"

definition sdkRejecting :: "thrown \<Rightarrow> sdk" where
  "sdkRejecting e = \<lparr>construct = (\<lambda>_. None), generateContent = (\<lambda>_ _. Rejected e)\<rparr>"

text \<open>Two component states: the initial one, and one with an image loaded, a prompt
  typed and the result and error of an earlier run still displayed.\<close>

definition stInitial :: app_state where
  "stInitial =
     \<lparr>originalImage = None, editedImage = None, prompt = [], isLoading = False,
      error = None, isDragging = False, showOriginal = False\<rparr>"

definition stReady :: app_state where
  "stReady =
     \<lparr>originalImage =
        Some \<lparr>img_base64 = ''aGk='', img_mimeType = ''image/png'', img_name = ''cat.png''\<rparr>,
      editedImage = Some ''data:image/png;base64,T0xE'', prompt = ''make it blue'',
      isLoading = False, error = Some ''Generation failed: earlier'', isDragging = False,
      showOriginal = False\<rparr>"





subsection \<open>The credential chain as the specification words it\<close>

text \<open>
  Section 6 of the specification: the credential is "resolved from one of: an explicit
  value passed by the caller, a local configuration constant, or a process-wide
  environment value, checked in that precedence order". This definition follows those
  words, to be compared with what the three versions do.
\<close>

definition resolveCredential_spec ::
  "string option \<Rightarrow> string \<Rightarrow> string option \<Rightarrow> string option"
where
  "resolveCredential_spec explicit local env = js_or explicit (js_or (Some local) env)"

section \<open>Properties of the service function\<close>

subsection \<open>What each version does on each path\<close>

lemma v1_missing:
  "\<not> truthy apiKey \<Longrightarrow>
     editImageWithPrompt_v1 api b m p apiKey calls = (Rejected (ErrorObj missingKey_v1), calls)"
  by (simp add: editImageWithPrompt_v1_def)

lemma v3_missing:
  "local = [] \<Longrightarrow> \<not> truthy env \<Longrightarrow>
     editImageWithPrompt_v3 api local env b m p calls = (Rejected (ErrorObj missingKey_v3), calls)"
  by (simp add: editImageWithPrompt_v3_def js_or_def)

lemma v1_resolved:
  "truthy apiKey \<Longrightarrow> construct api apiKey = None \<Longrightarrow>
   generateContent api apiKey (plainRequest b m p) = Resolved resp \<Longrightarrow>
     editImageWithPrompt_v1 api b m p apiKey calls =
       (Resolved (scanParts (firstCandidateParts resp)), calls @ [(apiKey, plainRequest b m p)])"
  by (simp add: editImageWithPrompt_v1_def imagePart_def textPart_def)

lemma v1_rejected:
  "truthy apiKey \<Longrightarrow> construct api apiKey = None \<Longrightarrow>
   generateContent api apiKey (plainRequest b m p) = Rejected e \<Longrightarrow>
     editImageWithPrompt_v1 api b m p apiKey calls =
       (Rejected (catchBlock e), calls @ [(apiKey, plainRequest b m p)])"
  by (simp add: editImageWithPrompt_v1_def imagePart_def textPart_def)

lemma v2_resolved:
  "construct api env = None \<Longrightarrow>
   generateContent api env (imageModalityRequest b m p) = Resolved resp \<Longrightarrow>
     editImageWithPrompt_v2 api env b m p calls =
       (Resolved (scanParts (firstCandidateParts resp)),
        calls @ [(env, imageModalityRequest b m p)])"
  by (simp add: editImageWithPrompt_v2_def imagePart_def textPart_def)

lemma v2_rejected:
  "construct api env = None \<Longrightarrow>
   generateContent api env (imageModalityRequest b m p) = Rejected e \<Longrightarrow>
     editImageWithPrompt_v2 api env b m p calls =
       (Rejected (catchBlock e), calls @ [(env, imageModalityRequest b m p)])"
  by (simp add: editImageWithPrompt_v2_def imagePart_def textPart_def)

lemma v3_resolved:
  "truthy (js_or (Some local) env) \<Longrightarrow> construct api (js_or (Some local) env) = None \<Longrightarrow>
   generateContent api (js_or (Some local) env) (plainRequest b m p) = Resolved resp \<Longrightarrow>
     editImageWithPrompt_v3 api local env b m p calls =
       (Resolved (scanParts (firstCandidateParts resp)),
        calls @ [(js_or (Some local) env, plainRequest b m p)])"
  by (simp add: editImageWithPrompt_v3_def imagePart_def textPart_def)

lemma v3_rejected:
  "truthy (js_or (Some local) env) \<Longrightarrow> construct api (js_or (Some local) env) = None \<Longrightarrow>
   generateContent api (js_or (Some local) env) (plainRequest b m p) = Rejected e \<Longrightarrow>
     editImageWithPrompt_v3 api local env b m p calls =
       (Rejected (catchBlock e), calls @ [(js_or (Some local) env, plainRequest b m p)])"
  by (simp add: editImageWithPrompt_v3_def imagePart_def textPart_def)

lemma scanParts_first:
  "\<forall>q\<in>set pre. inlineData q = None \<Longrightarrow> inlineData p = Some b \<Longrightarrow>
     scanParts (pre @ p # post) = Some (data b)"
  by (induction pre) simp_all

lemma scanParts_none: "\<forall>q\<in>set ps. inlineData q = None \<Longrightarrow> scanParts ps = None"
  by (induction ps) simp_all

lemma firstCandidateParts_first:
  "candidates resp = Some (c # others) \<Longrightarrow> content c = Some ct \<Longrightarrow> parts ct = Some ps \<Longrightarrow>
     firstCandidateParts resp = ps"
  by (simp add: firstCandidateParts_def)

lemma v1_sent:
  "truthy apiKey \<Longrightarrow> construct api apiKey = None \<Longrightarrow>
     snd (editImageWithPrompt_v1 api b m instr apiKey calls) =
       calls @ [(apiKey, plainRequest b m instr)]"
  by (cases "generateContent api apiKey (plainRequest b m instr)")
    (simp_all add: v1_resolved v1_rejected)

lemma v2_sent:
  "construct api env = None \<Longrightarrow>
     snd (editImageWithPrompt_v2 api env b m instr calls) =
       calls @ [(env, imageModalityRequest b m instr)]"
  by (cases "generateContent api env (imageModalityRequest b m instr)")
    (simp_all add: v2_resolved v2_rejected)

lemma v3_sent:
  "truthy (js_or (Some local) env) \<Longrightarrow> construct api (js_or (Some local) env) = None \<Longrightarrow>
     snd (editImageWithPrompt_v3 api local env b m instr calls) =
       calls @ [(js_or (Some local) env, plainRequest b m instr)]"
  by (cases "generateContent api (js_or (Some local) env) (plainRequest b m instr)")
    (simp_all add: v3_resolved v3_rejected)

lemma v1_calls:
  "snd (editImageWithPrompt_v1 api b m instr apiKey calls) = calls \<or>
   snd (editImageWithPrompt_v1 api b m instr apiKey calls) = calls @ [(apiKey, plainRequest b m instr)]"
  by (simp add: editImageWithPrompt_v1_def imagePart_def textPart_def Let_def
      split: option.split outcome.split)

lemma v2_calls:
  "snd (editImageWithPrompt_v2 api env b m instr calls) = calls \<or>
   snd (editImageWithPrompt_v2 api env b m instr calls) =
     calls @ [(env, imageModalityRequest b m instr)]"
  by (simp add: editImageWithPrompt_v2_def imagePart_def textPart_def Let_def
      split: option.split outcome.split)

lemma v3_calls:
  "snd (editImageWithPrompt_v3 api local env b m instr calls) = calls \<or>
   snd (editImageWithPrompt_v3 api local env b m instr calls) =
     calls @ [(js_or (Some local) env, plainRequest b m instr)]"
  by (simp add: editImageWithPrompt_v3_def imagePart_def textPart_def Let_def
      split: option.split outcome.split)

lemma catchBlock_cases:
  "catchBlock e =
     (case e of
        ErrorObj msg \<Rightarrow> ErrorObj (''API Error: '' @ msg)
      | NonError v \<Rightarrow> ErrorObj ''An unknown error occurred while communicating with the API.'')"
  by (simp add: catchBlock_def)

lemma catchBlock_not_raw: "catchBlock e \<noteq> e"
proof (cases e)
  case (ErrorObj msg)
  have "length (''API Error: '' @ msg) \<noteq> length msg" by simp
  then have "''API Error: '' @ msg \<noteq> msg" by metis
  with ErrorObj show ?thesis by (simp add: catchBlock_def)
next
  case (NonError v)
  then show ?thesis by (simp add: catchBlock_def)
qed

lemma catchBlock_not_missing:
  "catchBlock e \<noteq> ErrorObj missingKey_v1" "catchBlock e \<noteq> ErrorObj missingKey_v3"
  by (cases e; simp add: catchBlock_def missingKey_v1_def missingKey_v3_def)+

subsection \<open>Missing credential\<close>

text \<open>
  C1, as stated, fails on version 2: it has no credential guard. With the empty string as
  environment value and an SDK that accepts it, the function sends the request and
  resolves with the image.
\<close>

theorem missing_credential_variant2_counterexample:
  "\<not> truthy (Some []) \<and>
   editImageWithPrompt_v2 (sdkResolving respWithImage) (Some []) ''aGk='' ''image/png''
       ''make it blue'' [] =
     (Resolved (Some ''QUJD''),
      [(Some [], imageModalityRequest ''aGk='' ''image/png'' ''make it blue'')])"
  by (simp add: editImageWithPrompt_v2_def sdkResolving_def respWithImage_def
      firstCandidateParts_def imagePart_def textPart_def)

text \<open>
  C1, amended. In the versions that guard the credential (version 1, explicit parameter;
  version 3, local constant then environment), an empty or absent resolved credential
  makes \<open>editImageWithPrompt\<close> fail with that version's missing-credential error before
  any network I/O: the list of network calls is unchanged. Version 2 has no guard: once
  the SDK client is constructed it sends its request with whatever the environment
  holds, empty or absent included.
\<close>

theorem missing_credential_guarded:
  "(\<not> truthy apiKey \<longrightarrow>
      editImageWithPrompt_v1 api b m p apiKey calls = (Rejected (ErrorObj missingKey_v1), calls))
   \<and> (local = [] \<and> \<not> truthy env \<longrightarrow>
      editImageWithPrompt_v3 api local env b m p calls = (Rejected (ErrorObj missingKey_v3), calls))
   \<and> (construct api env = None \<longrightarrow>
      snd (editImageWithPrompt_v2 api env b m p calls) =
        calls @ [(env, imageModalityRequest b m p)])"
proof (intro conjI impI)
  assume "\<not> truthy apiKey"
  then show "editImageWithPrompt_v1 api b m p apiKey calls =
      (Rejected (ErrorObj missingKey_v1), calls)"
    by (rule v1_missing)
next
  assume "local = [] \<and> \<not> truthy env"
  then show "editImageWithPrompt_v3 api local env b m p calls =
      (Rejected (ErrorObj missingKey_v3), calls)"
    by (simp add: v3_missing)
next
  assume c: "construct api env = None"
  show "snd (editImageWithPrompt_v2 api env b m p calls) =
      calls @ [(env, imageModalityRequest b m p)]"
  proof (cases "generateContent api env (imageModalityRequest b m p)")
    case (Resolved resp)
    with c show ?thesis by (simp add: v2_resolved)
  next
    case (Rejected e)
    with c show ?thesis by (simp add: v2_rejected)
  qed
qed

theorem missing_credential_guarded_witness:
  "editImageWithPrompt_v1 (sdkResolving respWithImage) ''aGk='' ''image/png'' ''make it blue''
       (Some []) [] = (Rejected (ErrorObj missingKey_v1), [])
   \<and> editImageWithPrompt_v3 (sdkResolving respWithImage) [] None ''aGk='' ''image/png''
       ''make it blue'' [] = (Rejected (ErrorObj missingKey_v3), [])
   \<and> snd (editImageWithPrompt_v2 (sdkResolving respWithImage) None ''aGk='' ''image/png''
       ''make it blue'' []) =
       [(None, imageModalityRequest ''aGk='' ''image/png'' ''make it blue'')]"
  using missing_credential_guarded [of "Some []" "sdkResolving respWithImage" "''aGk=''"
      "''image/png''" "''make it blue''" "[]" "[]" None]
  by (simp add: sdkResolving_def)

subsection \<open>Extraction of the image\<close>

text \<open>
  C2. Whenever the service call is made and resolves with a response whose first
  candidate's content parts include a part carrying inline data, every version of
  \<open>editImageWithPrompt\<close> resolves with the \<open>data\<close> of the first such part, as received.
  The parts after it (\<open>post\<close>) and the candidates after the first (\<open>others\<close>) are
  arbitrary: they have no influence on the result.
\<close>

theorem first_inline_data_returned:
  assumes "candidates resp = Some (c # others)"
    and "content c = Some ct"
    and "parts ct = Some (pre @ p # post)"
    and "\<forall>q\<in>set pre. inlineData q = None"
    and "inlineData p = Some img"
  shows "(truthy apiKey \<and> construct api apiKey = None \<and>
          generateContent api apiKey (plainRequest b m instr) = Resolved resp \<longrightarrow>
            fst (editImageWithPrompt_v1 api b m instr apiKey calls) = Resolved (Some (data img)))
       \<and> (construct api env = None \<and>
          generateContent api env (imageModalityRequest b m instr) = Resolved resp \<longrightarrow>
            fst (editImageWithPrompt_v2 api env b m instr calls) = Resolved (Some (data img)))
       \<and> (truthy (js_or (Some local) env) \<and> construct api (js_or (Some local) env) = None \<and>
          generateContent api (js_or (Some local) env) (plainRequest b m instr) = Resolved resp \<longrightarrow>
            fst (editImageWithPrompt_v3 api local env b m instr calls) = Resolved (Some (data img)))"
proof -
  have "firstCandidateParts resp = pre @ p # post"
    using assms(1-3) by (rule firstCandidateParts_first)
  then have scan: "scanParts (firstCandidateParts resp) = Some (data img)"
    using assms(4,5) by (simp add: scanParts_first)
  show ?thesis
    by (intro conjI impI) (simp_all add: v1_resolved v2_resolved v3_resolved scan)
qed

theorem first_inline_data_returned_witness:
  "fst (editImageWithPrompt_v1 (sdkResolving respWithImage) ''aGk='' ''image/png''
          ''make it blue'' (Some ''KEY'') []) = Resolved (Some ''QUJD'')
   \<and> fst (editImageWithPrompt_v2 (sdkResolving respWithImage) (Some ''ENV'') ''aGk=''
          ''image/png'' ''make it blue'' []) = Resolved (Some ''QUJD'')
   \<and> fst (editImageWithPrompt_v3 (sdkResolving respWithImage) ''LOCAL'' (Some ''ENV'') ''aGk=''
          ''image/png'' ''make it blue'' []) = Resolved (Some ''QUJD'')"
  using first_inline_data_returned [of respWithImage
      "\<lparr>content = Some \<lparr>parts = Some
            [\<lparr>inlineData = None, partText = Some ''Here is your image''\<rparr>,
             \<lparr>inlineData = Some \<lparr>data = ''QUJD'', mimeType = ''image/png''\<rparr>, partText = None\<rparr>,
             \<lparr>inlineData = Some \<lparr>data = ''WFla'', mimeType = ''image/png''\<rparr>, partText = None\<rparr>]\<rparr>\<rparr>"
      "[\<lparr>content = Some \<lparr>parts = Some
            [\<lparr>inlineData = Some \<lparr>data = ''UVJT'', mimeType = ''image/png''\<rparr>, partText = None\<rparr>]\<rparr>\<rparr>]"
      "\<lparr>parts = Some
            [\<lparr>inlineData = None, partText = Some ''Here is your image''\<rparr>,
             \<lparr>inlineData = Some \<lparr>data = ''QUJD'', mimeType = ''image/png''\<rparr>, partText = None\<rparr>,
             \<lparr>inlineData = Some \<lparr>data = ''WFla'', mimeType = ''image/png''\<rparr>, partText = None\<rparr>]\<rparr>"
      "[\<lparr>inlineData = None, partText = Some ''Here is your image''\<rparr>]"
      "\<lparr>inlineData = Some \<lparr>data = ''QUJD'', mimeType = ''image/png''\<rparr>, partText = None\<rparr>"
      "[\<lparr>inlineData = Some \<lparr>data = ''WFla'', mimeType = ''image/png''\<rparr>, partText = None\<rparr>]"
      "\<lparr>data = ''QUJD'', mimeType = ''image/png''\<rparr>"
      "Some ''KEY''" "sdkResolving respWithImage" "''aGk=''" "''image/png''" "''make it blue''"
      "[]" "Some ''ENV''" "''LOCAL''"]
  by (simp add: respWithImage_def sdkResolving_def js_or_def)

text \<open>
  C3. Whenever the service call is made and resolves with a response whose first
  candidate's content parts hold no inline data (a missing candidate list, an empty one,
  a missing content or missing parts count as no parts), every version resolves with
  \<open>null\<close>: the promise is not rejected.
\<close>

theorem no_inline_data_resolves_null:
  assumes "\<forall>q\<in>set (firstCandidateParts resp). inlineData q = None"
  shows "(truthy apiKey \<and> construct api apiKey = None \<and>
          generateContent api apiKey (plainRequest b m instr) = Resolved resp \<longrightarrow>
            fst (editImageWithPrompt_v1 api b m instr apiKey calls) = Resolved None)
       \<and> (construct api env = None \<and>
          generateContent api env (imageModalityRequest b m instr) = Resolved resp \<longrightarrow>
            fst (editImageWithPrompt_v2 api env b m instr calls) = Resolved None)
       \<and> (truthy (js_or (Some local) env) \<and> construct api (js_or (Some local) env) = None \<and>
          generateContent api (js_or (Some local) env) (plainRequest b m instr) = Resolved resp \<longrightarrow>
            fst (editImageWithPrompt_v3 api local env b m instr calls) = Resolved None)"
proof -
  have scan: "scanParts (firstCandidateParts resp) = None"
    using assms by (rule scanParts_none)
  show ?thesis
    by (intro conjI impI) (simp_all add: v1_resolved v2_resolved v3_resolved scan)
qed

theorem no_inline_data_resolves_null_witness:
  "fst (editImageWithPrompt_v1 (sdkResolving respTextOnly) ''aGk='' ''image/png''
          ''make it blue'' (Some ''KEY'') []) = Resolved None
   \<and> fst (editImageWithPrompt_v2 (sdkResolving respTextOnly) (Some ''ENV'') ''aGk=''
          ''image/png'' ''make it blue'' []) = Resolved None
   \<and> fst (editImageWithPrompt_v3 (sdkResolving respTextOnly) [] (Some ''ENV'') ''aGk=''
          ''image/png'' ''make it blue'' []) = Resolved None"
  using no_inline_data_resolves_null [of respTextOnly "Some ''KEY''" "sdkResolving respTextOnly"
      "''aGk=''" "''image/png''" "''make it blue''" "[]" "Some ''ENV''" "[]"]
  by (simp add: respTextOnly_def sdkResolving_def js_or_def firstCandidateParts_def)

subsection \<open>Failure of the remote call\<close>

text \<open>
  C5. Whenever the service call is made and rejects, every version rejects with a new
  \<open>Error\<close>: its message is \<open>API Error: \<close> followed by the failure's message when the
  failure is an \<open>Error\<close>, and the fixed text
  \<open>An unknown error occurred while communicating with the API.\<close> otherwise. What the
  caller receives is never the value the remote call threw.
\<close>

theorem remote_failure_wrapped:
  "(truthy apiKey \<and> construct api apiKey = None \<and>
      generateContent api apiKey (plainRequest b m instr) = Rejected e \<longrightarrow>
        fst (editImageWithPrompt_v1 api b m instr apiKey calls) =
          Rejected (case e of
              ErrorObj msg \<Rightarrow> ErrorObj (''API Error: '' @ msg)
            | NonError v \<Rightarrow>
                ErrorObj ''An unknown error occurred while communicating with the API.'')
        \<and> fst (editImageWithPrompt_v1 api b m instr apiKey calls) \<noteq> Rejected e)
   \<and> (construct api env = None \<and>
      generateContent api env (imageModalityRequest b m instr) = Rejected e \<longrightarrow>
        fst (editImageWithPrompt_v2 api env b m instr calls) =
          Rejected (case e of
              ErrorObj msg \<Rightarrow> ErrorObj (''API Error: '' @ msg)
            | NonError v \<Rightarrow>
                ErrorObj ''An unknown error occurred while communicating with the API.'')
        \<and> fst (editImageWithPrompt_v2 api env b m instr calls) \<noteq> Rejected e)
   \<and> (truthy (js_or (Some local) env) \<and> construct api (js_or (Some local) env) = None \<and>
      generateContent api (js_or (Some local) env) (plainRequest b m instr) = Rejected e \<longrightarrow>
        fst (editImageWithPrompt_v3 api local env b m instr calls) =
          Rejected (case e of
              ErrorObj msg \<Rightarrow> ErrorObj (''API Error: '' @ msg)
            | NonError v \<Rightarrow>
                ErrorObj ''An unknown error occurred while communicating with the API.'')
        \<and> fst (editImageWithPrompt_v3 api local env b m instr calls) \<noteq> Rejected e)"
proof (intro conjI impI)
  assume h: "truthy apiKey \<and> construct api apiKey = None \<and>
      generateContent api apiKey (plainRequest b m instr) = Rejected e"
  then have r: "fst (editImageWithPrompt_v1 api b m instr apiKey calls) = Rejected (catchBlock e)"
    by (simp add: v1_rejected)
  show "fst (editImageWithPrompt_v1 api b m instr apiKey calls) =
      Rejected (case e of
          ErrorObj msg \<Rightarrow> ErrorObj (''API Error: '' @ msg)
        | NonError v \<Rightarrow>
            ErrorObj ''An unknown error occurred while communicating with the API.'')"
    unfolding r by (simp only: catchBlock_cases)
  show "fst (editImageWithPrompt_v1 api b m instr apiKey calls) \<noteq> Rejected e"
    unfolding r by (simp add: catchBlock_not_raw)
next
  assume h: "construct api env = None \<and>
      generateContent api env (imageModalityRequest b m instr) = Rejected e"
  then have r: "fst (editImageWithPrompt_v2 api env b m instr calls) = Rejected (catchBlock e)"
    by (simp add: v2_rejected)
  show "fst (editImageWithPrompt_v2 api env b m instr calls) =
      Rejected (case e of
          ErrorObj msg \<Rightarrow> ErrorObj (''API Error: '' @ msg)
        | NonError v \<Rightarrow>
            ErrorObj ''An unknown error occurred while communicating with the API.'')"
    unfolding r by (simp only: catchBlock_cases)
  show "fst (editImageWithPrompt_v2 api env b m instr calls) \<noteq> Rejected e"
    unfolding r by (simp add: catchBlock_not_raw)
next
  assume h: "truthy (js_or (Some local) env) \<and> construct api (js_or (Some local) env) = None \<and>
      generateContent api (js_or (Some local) env) (plainRequest b m instr) = Rejected e"
  then have r: "fst (editImageWithPrompt_v3 api local env b m instr calls) = Rejected (catchBlock e)"
    by (simp add: v3_rejected)
  show "fst (editImageWithPrompt_v3 api local env b m instr calls) =
      Rejected (case e of
          ErrorObj msg \<Rightarrow> ErrorObj (''API Error: '' @ msg)
        | NonError v \<Rightarrow>
            ErrorObj ''An unknown error occurred while communicating with the API.'')"
    unfolding r by (simp only: catchBlock_cases)
  show "fst (editImageWithPrompt_v3 api local env b m instr calls) \<noteq> Rejected e"
    unfolding r by (simp add: catchBlock_not_raw)
qed

theorem remote_failure_wrapped_witness:
  "fst (editImageWithPrompt_v1 (sdkRejecting (ErrorObj ''fetch failed'')) ''aGk='' ''image/png''
          ''make it blue'' (Some ''KEY'') []) = Rejected (ErrorObj ''API Error: fetch failed'')
   \<and> fst (editImageWithPrompt_v2 (sdkRejecting (ErrorObj ''fetch failed'')) (Some ''ENV'')
          ''aGk='' ''image/png'' ''make it blue'' []) = Rejected (ErrorObj ''API Error: fetch failed'')
   \<and> fst (editImageWithPrompt_v3 (sdkRejecting (ErrorObj ''fetch failed'')) ''LOCAL''
          (Some ''ENV'') ''aGk='' ''image/png'' ''make it blue'' []) =
        Rejected (ErrorObj ''API Error: fetch failed'')
   \<and> fst (editImageWithPrompt_v2 (sdkRejecting (NonError ''503'')) (Some ''ENV'')
          ''aGk='' ''image/png'' ''make it blue'' []) =
        Rejected (ErrorObj ''An unknown error occurred while communicating with the API.'')"
  using remote_failure_wrapped [where apiKey = "Some ''KEY''"
      and api = "sdkRejecting (ErrorObj ''fetch failed'')" and b = "''aGk=''"
      and m = "''image/png''" and instr = "''make it blue''" and calls = "[]"
      and env = "Some ''ENV''" and local = "''LOCAL''" and e = "ErrorObj ''fetch failed''"]
    remote_failure_wrapped [where api = "sdkRejecting (NonError ''503'')" and b = "''aGk=''"
      and m = "''image/png''" and instr = "''make it blue''" and calls = "[]"
      and env = "Some ''ENV''" and e = "NonError ''503''"]
  by (simp add: sdkRejecting_def js_or_def)

subsection \<open>Number and shape of the requests\<close>

text \<open>
  C7. Every invocation of \<open>editImageWithPrompt\<close>, in every version and whatever the SDK
  does, adds at most one entry to the list of network calls: no retry, no second request.
\<close>

theorem at_most_one_network_call:
  "(\<exists>new. snd (editImageWithPrompt_v1 api b m instr apiKey calls) = calls @ new \<and> length new \<le> 1)
   \<and> (\<exists>new. snd (editImageWithPrompt_v2 api env b m instr calls) = calls @ new \<and> length new \<le> 1)
   \<and> (\<exists>new. snd (editImageWithPrompt_v3 api local env b m instr calls) = calls @ new
         \<and> length new \<le> 1)"
proof (intro conjI)
  show "\<exists>new. snd (editImageWithPrompt_v1 api b m instr apiKey calls) = calls @ new \<and> length new \<le> 1"
    using v1_calls [of api b m instr apiKey calls] by (elim disjE) (simp, fastforce)
  show "\<exists>new. snd (editImageWithPrompt_v2 api env b m instr calls) = calls @ new \<and> length new \<le> 1"
    using v2_calls [of api env b m instr calls] by (elim disjE) (simp, fastforce)
  show "\<exists>new. snd (editImageWithPrompt_v3 api local env b m instr calls) = calls @ new
         \<and> length new \<le> 1"
    using v3_calls [of api local env b m instr calls] by (elim disjE) (simp, fastforce)
qed

text \<open>
  C8. The only request an invocation can send addresses the model
  \<open>gemini-2.5-flash-image\<close> and has exactly two content parts: the inline image data with
  its MIME type, then the instruction text. Version 2 declares
  \<open>responseModalities = [IMAGE]\<close>; versions 1 and 3 send no \<open>config\<close>. The request is
  sent whenever the credential guard (where there is one) passes and the SDK client is
  constructed.
\<close>

theorem request_shape:
  "(snd (editImageWithPrompt_v1 api b m instr apiKey calls) = calls \<or>
    snd (editImageWithPrompt_v1 api b m instr apiKey calls) =
      calls @ [(apiKey,
        \<lparr>model = ''gemini-2.5-flash-image'',
         contents = [\<lparr>inlineData = Some \<lparr>data = b, mimeType = m\<rparr>, partText = None\<rparr>,
                     \<lparr>inlineData = None, partText = Some instr\<rparr>],
         config = None\<rparr>)])
   \<and> (snd (editImageWithPrompt_v2 api env b m instr calls) = calls \<or>
    snd (editImageWithPrompt_v2 api env b m instr calls) =
      calls @ [(env,
        \<lparr>model = ''gemini-2.5-flash-image'',
         contents = [\<lparr>inlineData = Some \<lparr>data = b, mimeType = m\<rparr>, partText = None\<rparr>,
                     \<lparr>inlineData = None, partText = Some instr\<rparr>],
         config = Some \<lparr>responseModalities = [IMAGE]\<rparr>\<rparr>)])
   \<and> (snd (editImageWithPrompt_v3 api local env b m instr calls) = calls \<or>
    snd (editImageWithPrompt_v3 api local env b m instr calls) =
      calls @ [(js_or (Some local) env,
        \<lparr>model = ''gemini-2.5-flash-image'',
         contents = [\<lparr>inlineData = Some \<lparr>data = b, mimeType = m\<rparr>, partText = None\<rparr>,
                     \<lparr>inlineData = None, partText = Some instr\<rparr>],
         config = None\<rparr>)])
   \<and> (truthy apiKey \<and> construct api apiKey = None \<longrightarrow>
        snd (editImageWithPrompt_v1 api b m instr apiKey calls) \<noteq> calls)
   \<and> (construct api env = None \<longrightarrow>
        snd (editImageWithPrompt_v2 api env b m instr calls) \<noteq> calls)
   \<and> (truthy (js_or (Some local) env) \<and> construct api (js_or (Some local) env) = None \<longrightarrow>
        snd (editImageWithPrompt_v3 api local env b m instr calls) \<noteq> calls)"
  by (intro conjI impI v1_calls v2_calls v3_calls) (simp_all add: v1_sent v2_sent v3_sent)

theorem request_shape_witness:
  "snd (editImageWithPrompt_v1 (sdkResolving respTextOnly) ''aGk='' ''image/png''
        ''make it blue'' (Some ''KEY'') []) =
      [(Some ''KEY'',
        \<lparr>model = ''gemini-2.5-flash-image'',
         contents = [\<lparr>inlineData = Some \<lparr>data = ''aGk='', mimeType = ''image/png''\<rparr>,
                       partText = None\<rparr>,
                     \<lparr>inlineData = None, partText = Some ''make it blue''\<rparr>],
         config = None\<rparr>)]
   \<and> snd (editImageWithPrompt_v2 (sdkResolving respTextOnly) (Some ''ENV'') ''aGk=''
        ''image/png'' ''make it blue'' []) =
      [(Some ''ENV'',
        \<lparr>model = ''gemini-2.5-flash-image'',
         contents = [\<lparr>inlineData = Some \<lparr>data = ''aGk='', mimeType = ''image/png''\<rparr>,
                       partText = None\<rparr>,
                     \<lparr>inlineData = None, partText = Some ''make it blue''\<rparr>],
         config = Some \<lparr>responseModalities = [IMAGE]\<rparr>\<rparr>)]
   \<and> snd (editImageWithPrompt_v3 (sdkResolving respTextOnly) ''LOCAL'' (Some ''ENV'') ''aGk=''
        ''image/png'' ''make it blue'' []) =
      [(Some ''LOCAL'',
        \<lparr>model = ''gemini-2.5-flash-image'',
         contents = [\<lparr>inlineData = Some \<lparr>data = ''aGk='', mimeType = ''image/png''\<rparr>,
                       partText = None\<rparr>,
                     \<lparr>inlineData = None, partText = Some ''make it blue''\<rparr>],
         config = None\<rparr>)]"
  using request_shape [where apiKey = "Some ''KEY''"
      and api = "sdkResolving respTextOnly" and b = "''aGk=''" and m = "''image/png''"
      and instr = "''make it blue''" and calls = "[]" and local = "''LOCAL''"
      and env = "Some ''ENV''"]
  by (auto simp add: sdkResolving_def js_or_def)

subsection \<open>Where the credential comes from\<close>

text \<open>
  C4, as stated, fails: no version implements the three-source chain. In version 1 the
  caller passes no explicit value while the process-wide environment holds a key; the
  chain of the specification resolves to that key, and the code fails with the
  missing-credential error.
\<close>

theorem credential_chain_counterexample:
  "resolveCredential_spec None [] (Some ''ENV-KEY'') = Some ''ENV-KEY''
   \<and> editImageWithPrompt_v1 (sdkResolving respWithImage) ''aGk='' ''image/png'' ''make it blue''
        None [] = (Rejected (ErrorObj missingKey_v1), [])"
  by (simp add: resolveCredential_spec_def js_or_def editImageWithPrompt_v1_def)

text \<open>
  C4, amended. Each version has its own sources. Version 1 uses the explicit value only:
  when it is empty or absent the call fails with the missing-credential error before any
  network call; when it is non-empty and the SDK client is constructed, it is the key of
  the request sent; and when the SDK client is constructed, the call fails with the
  missing-credential error only if the explicit value is empty or absent. Version 3 takes
  no explicit value: when the local constant is non-empty and the SDK client is
  constructed, the constant is the key of the request sent; when the constant is empty,
  the environment value is non-empty and the SDK client is constructed, the environment
  value is the key; when both are empty or absent the call fails with the
  missing-credential error before any network call; and when the SDK client is
  constructed, it fails with that error only if both are empty or absent. Version 2 has
  no credential guard of its own: it hands the environment value to the SDK as it is; if
  the SDK constructor throws, the thrown value is passed on before any network call, and
  if the client is constructed the request is sent with the environment value as key,
  empty or absent included.
\<close>

theorem credential_sources_per_version:
  "(truthy apiKey \<and> construct api apiKey = None \<longrightarrow>
      snd (editImageWithPrompt_v1 api b m instr apiKey calls) =
        calls @ [(apiKey, plainRequest b m instr)])
   \<and> (\<not> truthy apiKey \<longrightarrow>
      editImageWithPrompt_v1 api b m instr apiKey calls =
        (Rejected (ErrorObj missingKey_v1), calls))
   \<and> (construct api apiKey = None \<and>
      fst (editImageWithPrompt_v1 api b m instr apiKey calls) = Rejected (ErrorObj missingKey_v1)
        \<longrightarrow> \<not> truthy apiKey)
   \<and> (local \<noteq> [] \<and> construct api (Some local) = None \<longrightarrow>
      snd (editImageWithPrompt_v3 api local env b m instr calls) =
        calls @ [(Some local, plainRequest b m instr)])
   \<and> (local = [] \<and> truthy env \<and> construct api env = None \<longrightarrow>
      snd (editImageWithPrompt_v3 api local env b m instr calls) =
        calls @ [(env, plainRequest b m instr)])
   \<and> (local = [] \<and> \<not> truthy env \<longrightarrow>
      editImageWithPrompt_v3 api local env b m instr calls =
        (Rejected (ErrorObj missingKey_v3), calls))
   \<and> (construct api (js_or (Some local) env) = None \<and>
      fst (editImageWithPrompt_v3 api local env b m instr calls) =
        Rejected (ErrorObj missingKey_v3)
        \<longrightarrow> local = [] \<and> \<not> truthy env)
   \<and> (\<forall>e. construct api env = Some e \<longrightarrow>
      editImageWithPrompt_v2 api env b m instr calls = (Rejected e, calls))
   \<and> (construct api env = None \<longrightarrow>
      snd (editImageWithPrompt_v2 api env b m instr calls) =
        calls @ [(env, imageModalityRequest b m instr)])"
proof -
  have v1_only: "\<not> truthy apiKey"
    if "construct api apiKey = None"
      "fst (editImageWithPrompt_v1 api b m instr apiKey calls) = Rejected (ErrorObj missingKey_v1)"
    using that by (cases "generateContent api apiKey (plainRequest b m instr)")
      (auto simp add: v1_resolved v1_rejected catchBlock_not_missing)
  have v3_only: "local = [] \<and> \<not> truthy env"
    if "construct api (js_or (Some local) env) = None"
      "fst (editImageWithPrompt_v3 api local env b m instr calls) =
        Rejected (ErrorObj missingKey_v3)"
  proof (rule ccontr)
    assume "\<not> (local = [] \<and> \<not> truthy env)"
    then have t: "truthy (js_or (Some local) env)" by (auto simp add: js_or_def)
    show False
      using that t
      by (cases "generateContent api (js_or (Some local) env) (plainRequest b m instr)")
        (auto simp add: v3_resolved v3_rejected catchBlock_not_missing)
  qed
  have c1: "truthy apiKey \<and> construct api apiKey = None \<longrightarrow>
      snd (editImageWithPrompt_v1 api b m instr apiKey calls) =
        calls @ [(apiKey, plainRequest b m instr)]"
    by (simp add: v1_sent)
  have c2: "\<not> truthy apiKey \<longrightarrow>
      editImageWithPrompt_v1 api b m instr apiKey calls =
        (Rejected (ErrorObj missingKey_v1), calls)"
    by (simp add: v1_missing)
  have c3: "construct api apiKey = None \<and>
      fst (editImageWithPrompt_v1 api b m instr apiKey calls) = Rejected (ErrorObj missingKey_v1)
        \<longrightarrow> \<not> truthy apiKey"
    using v1_only by blast
  have c4: "local \<noteq> [] \<and> construct api (Some local) = None \<longrightarrow>
      snd (editImageWithPrompt_v3 api local env b m instr calls) =
        calls @ [(Some local, plainRequest b m instr)]"
  proof
    assume h: "local \<noteq> [] \<and> construct api (Some local) = None"
    then have j: "js_or (Some local) env = Some local" by (simp add: js_or_def)
    from h have t: "truthy (js_or (Some local) env)"
      and c: "construct api (js_or (Some local) env) = None"
      unfolding j by simp_all
    show "snd (editImageWithPrompt_v3 api local env b m instr calls) =
        calls @ [(Some local, plainRequest b m instr)]"
      using v3_sent [OF t c, of b m instr calls] unfolding j .
  qed
  have c5: "local = [] \<and> truthy env \<and> construct api env = None \<longrightarrow>
      snd (editImageWithPrompt_v3 api local env b m instr calls) =
        calls @ [(env, plainRequest b m instr)]"
  proof
    assume h: "local = [] \<and> truthy env \<and> construct api env = None"
    then have j: "js_or (Some local) env = env" by (simp add: js_or_def)
    from h have t: "truthy (js_or (Some local) env)"
      and c: "construct api (js_or (Some local) env) = None"
      unfolding j by simp_all
    show "snd (editImageWithPrompt_v3 api local env b m instr calls) =
        calls @ [(env, plainRequest b m instr)]"
      using v3_sent [OF t c, of b m instr calls] unfolding j .
  qed
  have c6: "local = [] \<and> \<not> truthy env \<longrightarrow>
      editImageWithPrompt_v3 api local env b m instr calls =
        (Rejected (ErrorObj missingKey_v3), calls)"
    by (simp add: v3_missing)
  have c7: "construct api (js_or (Some local) env) = None \<and>
      fst (editImageWithPrompt_v3 api local env b m instr calls) =
        Rejected (ErrorObj missingKey_v3)
        \<longrightarrow> local = [] \<and> \<not> truthy env"
    using v3_only by blast
  have c8: "\<forall>e. construct api env = Some e \<longrightarrow>
      editImageWithPrompt_v2 api env b m instr calls = (Rejected e, calls)"
    by (simp add: editImageWithPrompt_v2_def)
  have c9: "construct api env = None \<longrightarrow>
      snd (editImageWithPrompt_v2 api env b m instr calls) =
        calls @ [(env, imageModalityRequest b m instr)]"
    using v2_sent by blast
  show ?thesis
    by (intro conjI c1 c2 c3 c4 c5 c6 c7 c8 c9)
qed

theorem credential_sources_per_version_witness:
  "snd (editImageWithPrompt_v1 (sdkResolving respWithImage) ''aGk='' ''image/png''
        ''make it blue'' (Some ''KEY'') []) =
      [(Some ''KEY'', plainRequest ''aGk='' ''image/png'' ''make it blue'')]
   \<and> snd (editImageWithPrompt_v3 (sdkResolving respWithImage) ''LOCAL'' (Some ''ENV'') ''aGk=''
        ''image/png'' ''make it blue'' []) =
      [(Some ''LOCAL'', plainRequest ''aGk='' ''image/png'' ''make it blue'')]
   \<and> snd (editImageWithPrompt_v2 (sdkResolving respWithImage) (Some ''ENV'') ''aGk=''
        ''image/png'' ''make it blue'' []) =
      [(Some ''ENV'', imageModalityRequest ''aGk='' ''image/png'' ''make it blue'')]
   \<and> snd (editImageWithPrompt_v3 (sdkResolving respWithImage) [] (Some ''ENV'') ''aGk=''
        ''image/png'' ''make it blue'' []) =
      [(Some ''ENV'', plainRequest ''aGk='' ''image/png'' ''make it blue'')]
   \<and> editImageWithPrompt_v1 (sdkResolving respWithImage) ''aGk='' ''image/png''
        ''make it blue'' None [] = (Rejected (ErrorObj missingKey_v1), [])
   \<and> editImageWithPrompt_v3 (sdkResolving respWithImage) [] None ''aGk='' ''image/png''
        ''make it blue'' [] = (Rejected (ErrorObj missingKey_v3), [])
   \<and> editImageWithPrompt_v2
        \<lparr>construct = (\<lambda>_. Some (ErrorObj ''An API Key must be set'')),
         generateContent = (\<lambda>_ _. Resolved respWithImage)\<rparr>
        None ''aGk='' ''image/png'' ''make it blue'' [] =
      (Rejected (ErrorObj ''An API Key must be set''), [])"
  using credential_sources_per_version [where apiKey = "Some ''KEY''"
      and api = "sdkResolving respWithImage" and b = "''aGk=''" and m = "''image/png''"
      and instr = "''make it blue''" and calls = "[]" and local = "''LOCAL''"
      and env = "Some ''ENV''"]
    credential_sources_per_version [where apiKey = None
      and api = "sdkResolving respWithImage" and b = "''aGk=''" and m = "''image/png''"
      and instr = "''make it blue''" and calls = "[]" and local = "[]"
      and env = "Some ''ENV''"]
    credential_sources_per_version [where apiKey = None
      and api = "sdkResolving respWithImage" and b = "''aGk=''" and m = "''image/png''"
      and instr = "''make it blue''" and calls = "[]" and local = "[]"
      and env = None]
    credential_sources_per_version [where
      api = "\<lparr>construct = (\<lambda>_. Some (ErrorObj ''An API Key must be set'')),
         generateContent = (\<lambda>_ _. Resolved respWithImage)\<rparr>"
      and b = "''aGk=''" and m = "''image/png''"
      and instr = "''make it blue''" and calls = "[]" and env = None]
  by (simp add: sdkResolving_def)

section \<open>Properties of the component\<close>

subsection \<open>Trimming, lower case and substring search\<close>

lemma last_dropWhile_nonempty: "dropWhile P xs \<noteq> [] \<Longrightarrow> last (dropWhile P xs) = last xs"
  by (induction xs) (auto split: if_splits)

lemma trim_ends:
  assumes "trim s \<noteq> []"
  shows "\<not> isWhiteSpace (hd (trim s))" and "\<not> isWhiteSpace (last (trim s))"
proof -
  define d where "d = dropWhile isWhiteSpace s"
  define e where "e = dropWhile isWhiteSpace (rev d)"
  have t: "trim s = rev e" by (simp add: trim_def d_def e_def)
  with assms have e: "e \<noteq> []" by simp
  then have d: "d \<noteq> []" by (auto simp add: e_def)
  have "last (trim s) = hd e" using e by (simp add: t last_rev)
  moreover have "\<not> isWhiteSpace (hd e)" using e unfolding e_def by (rule hd_dropWhile)
  ultimately show "\<not> isWhiteSpace (last (trim s))" by simp
  have "hd (trim s) = last e" using e by (simp add: t hd_rev)
  also have "\<dots> = last (rev d)" using e unfolding e_def by (rule last_dropWhile_nonempty)
  also have "\<dots> = hd d" using d by (simp add: last_rev)
  finally have "hd (trim s) = hd d" .
  moreover have "\<not> isWhiteSpace (hd d)" using d unfolding d_def by (rule hd_dropWhile)
  ultimately show "\<not> isWhiteSpace (hd (trim s))" by simp
qed

lemma trim_id:
  assumes "s \<noteq> []" "\<not> isWhiteSpace (hd s)" "\<not> isWhiteSpace (last s)"
  shows "trim s = s"
proof -
  have 1: "dropWhile isWhiteSpace s = s" using assms by (simp add: dropWhile_eq_self_iff)
  have "hd (rev s) = last s" using assms(1) by (simp add: hd_rev)
  then have 2: "dropWhile isWhiteSpace (rev s) = rev s"
    using assms by (simp add: dropWhile_eq_self_iff)
  show ?thesis by (simp add: trim_def 1 2)
qed

lemma includesStr_empty: "includesStr s []"
  by (cases s) simp_all

lemma includesStr_self: "includesStr t t"
  by (cases t) simp_all

lemma includesStr_suffix: "includesStr (xs @ t) t"
  by (induction xs) (simp_all add: includesStr_self)

lemma addPromptToken_prompt:
  "prompt (addPromptToken token st) =
     (if trim (prompt st) = [] then token
      else if includesStr (toLowerCase (trim (prompt st))) (toLowerCase token) then prompt st
      else trim (prompt st) @ '', '' @ token)"
  by (simp add: addPromptToken_def Let_def)

lemma addPromptToken_twice_prompt:
  assumes "trim token = token"
  shows "prompt (addPromptToken token (addPromptToken token st)) = prompt (addPromptToken token st)"
proof (cases "trim (prompt st) = []")
  case True
  then have p: "prompt (addPromptToken token st) = token" by (simp add: addPromptToken_prompt)
  show ?thesis
    by (simp add: addPromptToken_prompt [of token "addPromptToken token st"] p assms
        includesStr_self)
next
  case False
  show ?thesis
  proof (cases "includesStr (toLowerCase (trim (prompt st))) (toLowerCase token)")
    case True
    with False have p: "prompt (addPromptToken token st) = prompt st"
      by (simp add: addPromptToken_prompt)
    show ?thesis
      by (simp add: addPromptToken_prompt [of token "addPromptToken token st"] p False True)
  next
    case notin: False
    let ?r = "trim (prompt st) @ '', '' @ token"
    from False notin have p: "prompt (addPromptToken token st) = ?r"
      by (simp add: addPromptToken_prompt)
    have tok: "token \<noteq> []"
      using notin by (auto simp add: toLowerCase_def includesStr_empty)
    then have "trim token \<noteq> []" using assms by simp
    then have "\<not> isWhiteSpace (last (trim token))" by (rule trim_ends)
    then have l: "\<not> isWhiteSpace (last ?r)" using tok assms by simp
    have h: "\<not> isWhiteSpace (hd ?r)" using trim_ends(1) [OF False] False by simp
    have tr: "trim ?r = ?r" using h l by (intro trim_id) simp_all
    have eq: "toLowerCase ?r =
        (toLowerCase (trim (prompt st)) @ toLowerCase '', '') @ toLowerCase token"
      by (simp add: toLowerCase_def)
    have inc: "includesStr (toLowerCase ?r) (toLowerCase token)"
      unfolding eq by (rule includesStr_suffix)
    show ?thesis
      unfolding addPromptToken_prompt [of token "addPromptToken token st"] p tr
      using inc by simp
  qed
qed

lemma addPromptToken_other_fields:
  "addPromptToken token st = st\<lparr>prompt := prompt (addPromptToken token st)\<rparr>"
  by (simp add: addPromptToken_def)

lemma preset_tokens_trimmed: "\<forall>t\<in>set (STYLE_PRESETS @ ENHANCEMENTS). trim t = t \<and> t \<noteq> []"
  by (simp add: STYLE_PRESETS_def ENHANCEMENTS_def trim_def isWhiteSpace_def)

subsection \<open>\<open>addPromptToken\<close>\<close>

text \<open>
  C9, as stated, fails. For a token with leading white space the second application
  appends again: from the empty prompt, the token \<open>" a"\<close> gives \<open>" a"\<close> and then
  \<open>"a,  a"\<close>. And the order of the cases matters: for the empty token and a prompt of
  spaces only, the trimmed prompt contains the token, yet the prompt is replaced by the
  token.
\<close>

theorem addPromptToken_idempotent_counterexample:
  "addPromptToken '' a'' (addPromptToken '' a'' stInitial) \<noteq> addPromptToken '' a'' stInitial
   \<and> prompt (addPromptToken '' a'' stInitial) = '' a''
   \<and> prompt (addPromptToken '' a'' (addPromptToken '' a'' stInitial)) = ''a,  a''
   \<and> includesStr (toLowerCase (trim (prompt (stInitial\<lparr>prompt := ''  ''\<rparr>)))) (toLowerCase [])
   \<and> prompt (addPromptToken [] (stInitial\<lparr>prompt := ''  ''\<rparr>)) \<noteq>
       prompt (stInitial\<lparr>prompt := ''  ''\<rparr>)"
  by (simp add: addPromptToken_def stInitial_def trim_def isWhiteSpace_def toLowerCase_def
      lowerChar_def Let_def)

text \<open>
  C9, amended. For every prompt state and every token with no leading or trailing white
  space (every entry of \<open>STYLE_PRESETS\<close> and \<open>ENHANCEMENTS\<close>, the only tokens the component
  passes, is one: \<open>preset_tokens_trimmed\<close>), applying \<open>addPromptToken\<close> twice with the
  token gives the same state as applying it once. The cases, in the order the code tests
  them: if the trimmed prompt is empty the new prompt is exactly the token; otherwise, if
  the trimmed prompt contains the token case-insensitively the prompt is unchanged;
  otherwise the new prompt is the trimmed prompt, a comma and a space, and the token.
\<close>

theorem addPromptToken_idempotent_trimmed_token:
  assumes "trim token = token"
  shows "addPromptToken token (addPromptToken token st) = addPromptToken token st
    \<and> (trim (prompt st) = [] \<longrightarrow> prompt (addPromptToken token st) = token)
    \<and> (trim (prompt st) \<noteq> [] \<and>
        includesStr (toLowerCase (trim (prompt st))) (toLowerCase token) \<longrightarrow>
          prompt (addPromptToken token st) = prompt st)
    \<and> (trim (prompt st) \<noteq> [] \<and>
        \<not> includesStr (toLowerCase (trim (prompt st))) (toLowerCase token) \<longrightarrow>
          prompt (addPromptToken token st) = trim (prompt st) @ '', '' @ token)"
proof (intro conjI)
  have "addPromptToken token (addPromptToken token st) =
      (addPromptToken token st)\<lparr>prompt := prompt (addPromptToken token (addPromptToken token st))\<rparr>"
    by (rule addPromptToken_other_fields)
  also have "\<dots> = (addPromptToken token st)\<lparr>prompt := prompt (addPromptToken token st)\<rparr>"
    by (simp only: addPromptToken_twice_prompt [OF assms])
  also have "\<dots> = addPromptToken token st" by simp
  finally show "addPromptToken token (addPromptToken token st) = addPromptToken token st" .
qed (simp_all add: addPromptToken_prompt)

theorem addPromptToken_idempotent_trimmed_token_witness:
  "trim ''Cyberpunk'' = ''Cyberpunk''
   \<and> prompt (addPromptToken ''Cyberpunk'' (stReady\<lparr>prompt := ''  ''\<rparr>)) = ''Cyberpunk''
   \<and> prompt (addPromptToken ''Cyberpunk'' (stReady\<lparr>prompt := '' a CYBERPUNK cat''\<rparr>)) =
        '' a CYBERPUNK cat''
   \<and> prompt (addPromptToken ''Cyberpunk'' (stReady\<lparr>prompt := '' a cat ''\<rparr>)) =
        ''a cat, Cyberpunk''
   \<and> addPromptToken ''Cyberpunk'' (addPromptToken ''Cyberpunk'' (stReady\<lparr>prompt := '' a cat ''\<rparr>)) =
        addPromptToken ''Cyberpunk'' (stReady\<lparr>prompt := '' a cat ''\<rparr>)"
proof -
  have t: "trim ''Cyberpunk'' = ''Cyberpunk''"
    by (simp add: trim_def isWhiteSpace_def)
  show ?thesis
    using addPromptToken_idempotent_trimmed_token [OF t, of "stReady\<lparr>prompt := ''  ''\<rparr>"]
      addPromptToken_idempotent_trimmed_token [OF t, of "stReady\<lparr>prompt := '' a CYBERPUNK cat''\<rparr>"]
      addPromptToken_idempotent_trimmed_token [OF t, of "stReady\<lparr>prompt := '' a cat ''\<rparr>"]
    by (simp add: t trim_def isWhiteSpace_def toLowerCase_def lowerChar_def char_of_def
        bit_Suc_0_iff stReady_def)
qed

subsection \<open>\<open>handleSubmit\<close>: the guard\<close>








subsection \<open>\<open>handleSubmit\<close>: the settlement\<close>





end
